theory Spec2Isabelle
  imports Main "HOL-Library.Word"
begin

unbundle bit_operations_syntax

section \<open>The external C API of the engine: include/ZeroTierOne.h\<close>

text \<open>
  The repository's source is the public header of the network virtualization engine. It
  holds the core constants, the result and event codes, the structures the engine hands
  to its host, and the declarations of the entry points. The header is embedded as it is
  written: a \<^verbatim>\<open>#define\<close> is a constant, an \<^verbatim>\<open>enum\<close> is a datatype with the
  function that gives each enumerator its integer, a \<^verbatim>\<open>struct\<close> is a record, a fixed
  size array is a list together with its capacity.
\<close>

subsection \<open>Core constants\<close>

text \<open>\<^verbatim>\<open>#define ZT_DEFAULT_PORT 9993\<close>\<close>

definition ZT_DEFAULT_PORT :: nat where
  "ZT_DEFAULT_PORT = 9993"

text \<open>\<^verbatim>\<open>#define ZT_MAX_MTU 2800\<close>\<close>

definition ZT_MAX_MTU :: nat where
  "ZT_MAX_MTU = 2800"

text \<open>\<^verbatim>\<open>#define ZT_MAX_NETWORK_MULTICAST_SUBSCRIPTIONS 4096\<close>\<close>

definition ZT_MAX_NETWORK_MULTICAST_SUBSCRIPTIONS :: nat where
  "ZT_MAX_NETWORK_MULTICAST_SUBSCRIPTIONS = 4096"

text \<open>\<^verbatim>\<open>#define ZT_MAX_PEER_NETWORK_PATHS 4\<close>\<close>

definition ZT_MAX_PEER_NETWORK_PATHS :: nat where
  "ZT_MAX_PEER_NETWORK_PATHS = 4"

text \<open>\<^verbatim>\<open>#define ZT_CIRCUIT_TEST_MAX_HOPS 512\<close>\<close>

definition ZT_CIRCUIT_TEST_MAX_HOPS :: nat where
  "ZT_CIRCUIT_TEST_MAX_HOPS = 512"

text \<open>\<^verbatim>\<open>#define ZT_CIRCUIT_TEST_MAX_HOP_BREADTH 256\<close>\<close>

definition ZT_CIRCUIT_TEST_MAX_HOP_BREADTH :: nat where
  "ZT_CIRCUIT_TEST_MAX_HOP_BREADTH = 256"

text \<open>
  \<^verbatim>\<open>#define ZT_CLUSTER_MAX_MESSAGE_LENGTH (1500 - 48)\<close>: the macro is an expression,
  kept as the header writes it. Both operands are positive \<^verbatim>\<open>int\<close> literals and the
  difference is positive, so the subtraction on \<^typ>\<open>nat\<close> is the one of C.
\<close>

definition ZT_CLUSTER_MAX_MESSAGE_LENGTH :: nat where
  "ZT_CLUSTER_MAX_MESSAGE_LENGTH = 1500 - 48"

subsection \<open>Result codes\<close>

text \<open>
  \<^verbatim>\<open>enum ZT_ResultCode\<close>, the return type of the entry points. The header groups the
  enumerators under the comments \<^verbatim>\<open>// Fatal errors (>0, <1000)\<close> and
  \<^verbatim>\<open>// Non-fatal errors (>1000)\<close>.
\<close>

datatype ZT_ResultCode =
    ZT_RESULT_OK
  | ZT_RESULT_FATAL_ERROR_OUT_OF_MEMORY
  | ZT_RESULT_FATAL_ERROR_DATA_STORE_FAILED
  | ZT_RESULT_FATAL_ERROR_INTERNAL
  | ZT_RESULT_ERROR_NETWORK_NOT_FOUND
  | ZT_RESULT_ERROR_UNSUPPORTED_OPERATION
  | ZT_RESULT_ERROR_BAD_PARAMETER

text \<open>
  The integer each enumerator is given in the header. A C enumerator is an \<^verbatim>\<open>int\<close>
  constant; every value here is between 0 and 1002, so the cast \<^verbatim>\<open>(int)(x)\<close> of the
  macro below keeps it whatever the width of \<^verbatim>\<open>int\<close>, and \<^typ>\<open>int\<close> models it.
\<close>

primrec ZT_ResultCode_value :: "ZT_ResultCode \<Rightarrow> int" where
  "ZT_ResultCode_value ZT_RESULT_OK = 0"
| "ZT_ResultCode_value ZT_RESULT_FATAL_ERROR_OUT_OF_MEMORY = 1"
| "ZT_ResultCode_value ZT_RESULT_FATAL_ERROR_DATA_STORE_FAILED = 2"
| "ZT_ResultCode_value ZT_RESULT_FATAL_ERROR_INTERNAL = 3"
| "ZT_ResultCode_value ZT_RESULT_ERROR_NETWORK_NOT_FOUND = 1000"
| "ZT_ResultCode_value ZT_RESULT_ERROR_UNSUPPORTED_OPERATION = 1001"
| "ZT_ResultCode_value ZT_RESULT_ERROR_BAD_PARAMETER = 1002"

text \<open>
  \<^verbatim>\<open>#define ZT_ResultCode_isFatal(x) ((((int)(x)) > 0)&&(((int)(x)) < 1000))\<close>
\<close>

definition ZT_ResultCode_isFatal :: "int \<Rightarrow> bool" where
  "ZT_ResultCode_isFatal x = ((x > 0) \<and> (x < 1000))"

subsection \<open>Event and configuration operation codes\<close>

text \<open>\<^verbatim>\<open>enum ZT_Event\<close>: the status codes sent to the event callback.\<close>

datatype ZT_Event =
    ZT_EVENT_UP
  | ZT_EVENT_OFFLINE
  | ZT_EVENT_ONLINE
  | ZT_EVENT_DOWN
  | ZT_EVENT_FATAL_ERROR_IDENTITY_COLLISION
  | ZT_EVENT_TRACE

primrec ZT_Event_value :: "ZT_Event \<Rightarrow> int" where
  "ZT_Event_value ZT_EVENT_UP = 0"
| "ZT_Event_value ZT_EVENT_OFFLINE = 1"
| "ZT_Event_value ZT_EVENT_ONLINE = 2"
| "ZT_Event_value ZT_EVENT_DOWN = 3"
| "ZT_Event_value ZT_EVENT_FATAL_ERROR_IDENTITY_COLLISION = 4"
| "ZT_Event_value ZT_EVENT_TRACE = 5"

text \<open>\<^verbatim>\<open>enum ZT_VirtualNetworkStatus\<close>\<close>

datatype ZT_VirtualNetworkStatus =
    ZT_NETWORK_STATUS_REQUESTING_CONFIGURATION
  | ZT_NETWORK_STATUS_OK
  | ZT_NETWORK_STATUS_ACCESS_DENIED
  | ZT_NETWORK_STATUS_NOT_FOUND
  | ZT_NETWORK_STATUS_PORT_ERROR
  | ZT_NETWORK_STATUS_CLIENT_TOO_OLD

text \<open>\<^verbatim>\<open>enum ZT_VirtualNetworkConfigOperation\<close>: numbered from 1 in the header.\<close>

datatype ZT_VirtualNetworkConfigOperation =
    ZT_VIRTUAL_NETWORK_CONFIG_OPERATION_UP
  | ZT_VIRTUAL_NETWORK_CONFIG_OPERATION_CONFIG_UPDATE
  | ZT_VIRTUAL_NETWORK_CONFIG_OPERATION_DOWN
  | ZT_VIRTUAL_NETWORK_CONFIG_OPERATION_DESTROY

primrec ZT_VirtualNetworkConfigOperation_value :: "ZT_VirtualNetworkConfigOperation \<Rightarrow> int" where
  "ZT_VirtualNetworkConfigOperation_value ZT_VIRTUAL_NETWORK_CONFIG_OPERATION_UP = 1"
| "ZT_VirtualNetworkConfigOperation_value ZT_VIRTUAL_NETWORK_CONFIG_OPERATION_CONFIG_UPDATE = 2"
| "ZT_VirtualNetworkConfigOperation_value ZT_VIRTUAL_NETWORK_CONFIG_OPERATION_DOWN = 3"
| "ZT_VirtualNetworkConfigOperation_value ZT_VIRTUAL_NETWORK_CONFIG_OPERATION_DESTROY = 4"

text \<open>\<^verbatim>\<open>enum ZT_PeerRole\<close>\<close>

datatype ZT_PeerRole = ZT_PEER_ROLE_LEAF | ZT_PEER_ROLE_RELAY | ZT_PEER_ROLE_ROOT

subsection \<open>Structures\<close>

text \<open>
  \<^verbatim>\<open>struct sockaddr_storage\<close> comes from the system headers; the engine's interface
  treats it as a block of bytes, and so does the model.
\<close>

type_synonym sockaddr_storage = "8 word list"

text \<open>
  \<^verbatim>\<open>ZT_MulticastGroup\<close>: \<^verbatim>\<open>uint64_t mac\<close> (least significant 48 bits) and
  \<^verbatim>\<open>unsigned long adi\<close>, taken at the 64 bits it has on LP64 platforms.
\<close>

record ZT_MulticastGroup =
  mac :: "64 word"
  adi :: "64 word"

text \<open>
  \<^verbatim>\<open>ZT_PeerPhysicalPath\<close>. The two \<^verbatim>\<open>int\<close> fields are flags.
\<close>

record ZT_PeerPhysicalPath =
  address :: sockaddr_storage
  lastSend :: "64 word"
  lastReceive :: "64 word"
  active :: int
  preferred :: int

text \<open>
  \<^verbatim>\<open>ZT_Peer\<close>, the peer status result buffer. The field \<open>paths\<close> is the array
  \<^verbatim>\<open>ZT_PeerPhysicalPath paths[ZT_MAX_PEER_NETWORK_PATHS]\<close>: a list whose length is the
  capacity of the array, of which the first \<open>pathCount\<close> entries are in use.
\<close>

record ZT_Peer =
  address :: "64 word"
  lastUnicastFrame :: "64 word"
  lastMulticastFrame :: "64 word"
  versionMajor :: int
  versionMinor :: int
  versionRev :: int
  latency :: "32 word"
  role :: ZT_PeerRole
  pathCount :: "32 word"
  paths :: "ZT_PeerPhysicalPath list"

section \<open>The engine behind the header, from the specification\<close>

text \<open>
  The header declares the entry points; their bodies are in the engine's node sources,
  which are not part of the sources verified here. The definitions of this section are
  written from the specification and from the documentation comments of the header, and
  each one says which sentence it follows. They hold only the state that the modelled
  operations read or write.
\<close>

subsection \<open>Peers and their paths\<close>

text \<open>
  Modelled from the spec: the engine's \<open>Path\<close> record (section 3, "Path.
  \<open>{localAddr, remoteAddr, lastSend, lastReceive, lastPing, trust, active, preferred}\<close>"),
  whose code is missing. Times are milliseconds of the host's clock.
\<close>

record Path =
  localAddr :: sockaddr_storage
  remoteAddr :: sockaddr_storage
  pathLastSend :: "64 word"
  pathLastReceive :: "64 word"
  pathActive :: bool
  pathPreferred :: bool

text \<open>
  Modelled from the spec: the engine's \<open>Peer\<close> record (section 3, "Peer. Per known
  remote node: \<open>{identity, remoteVersion?, paths: [Path; \<le>4], ..., latencyEWMA, role}\<close>"),
  whose code is missing. The identity is kept as the 40-bit node address it yields. The
  order of the paths by preference is not modelled.
\<close>

record Peer =
  identity :: "64 word"
  peerPaths :: "Path list"
  latencyEWMA :: "32 word"
  peerRole :: ZT_PeerRole

text \<open>
  Modelled from the spec: the missing constant \<open>PATH_ALIVE_TIMEOUT\<close> (section 3, "about
  60s"), taken as 60000 milliseconds.
\<close>

definition PATH_ALIVE_TIMEOUT :: "64 word" where
  "PATH_ALIVE_TIMEOUT = 60000"

text \<open>
  Modelled from the spec: the missing liveness test of a path (section 3, "A path is
  alive if \<open>now - lastReceive < PATH_ALIVE_TIMEOUT\<close>"), on the 64-bit clock.
\<close>

definition Path_alive :: "64 word \<Rightarrow> Path \<Rightarrow> bool" where
  "Path_alive now p = (now - pathLastReceive p < PATH_ALIVE_TIMEOUT)"

text \<open>
  Modelled from the spec: the missing creation of a peer (section 3, "Peers are created
  on first authenticated sighting"): a peer starts with no path.
\<close>

definition Peer_new :: "64 word \<Rightarrow> Peer" where
  "Peer_new a = \<lparr>identity = a, peerPaths = [], latencyEWMA = 0, peerRole = ZT_PEER_ROLE_LEAF\<rparr>"

text \<open>
  Modelled from the spec: the missing eviction rule of the path table (section 3,
  "eviction: least-recently-received"): the path whose last receive time is the smallest
  is removed.
\<close>

definition evictLeastRecentlyReceived :: "Path list \<Rightarrow> Path list" where
  "evictLeastRecentlyReceived ps =
     (if ps = [] then [] else remove1 (arg_min_list pathLastReceive ps) ps)"

text \<open>
  Modelled from the spec: the missing insertion into the path table (section 3, "At most
  \<open>MAX_PEER_NETWORK_PATHS\<close> (=4) paths per peer; eviction: least-recently-received"): a
  full table evicts before it takes the new path.
\<close>

definition Peer_addPath :: "Path \<Rightarrow> Peer \<Rightarrow> Peer" where
  "Peer_addPath p peer =
     (if length (peerPaths peer) < ZT_MAX_PEER_NETWORK_PATHS
      then peer\<lparr>peerPaths := peerPaths peer @ [p]\<rparr>
      else peer\<lparr>peerPaths := evictLeastRecentlyReceived (peerPaths peer) @ [p]\<rparr>)"

text \<open>
  Modelled from the spec: the missing comparison of paths; a path is known by its pair
  of local and remote address.
\<close>

definition samePath :: "sockaddr_storage \<Rightarrow> sockaddr_storage \<Rightarrow> Path \<Rightarrow> bool" where
  "samePath l r p = (localAddr p = l \<and> remoteAddr p = r)"

text \<open>
  Modelled from the spec: the missing handling of an authenticated packet from a peer
  (section 3, "Paths enter via inbound authenticated packets"): a known path records the
  receive time, an unknown one enters the table.
\<close>

definition Peer_received ::
    "64 word \<Rightarrow> sockaddr_storage \<Rightarrow> sockaddr_storage \<Rightarrow> Peer \<Rightarrow> Peer" where
  "Peer_received now l r peer =
     (if list_ex (samePath l r) (peerPaths peer)
      then peer\<lparr>peerPaths :=
             map (\<lambda>p. if samePath l r p
                       then p\<lparr>pathLastReceive := now, pathActive := True\<rparr> else p)
                 (peerPaths peer)\<rparr>
      else Peer_addPath \<lparr>localAddr = l, remoteAddr = r, pathLastSend = 0,
                          pathLastReceive = now, pathActive = True,
                          pathPreferred = False\<rparr> peer)"

text \<open>
  Modelled from the spec: the missing handling of a path hint (section 3, "or via
  PUSH_DIRECT_PATHS hints"): an unknown path enters the table, never received on.
\<close>

definition Peer_pushDirectPath :: "sockaddr_storage \<Rightarrow> sockaddr_storage \<Rightarrow> Peer \<Rightarrow> Peer" where
  "Peer_pushDirectPath l r peer =
     (if list_ex (samePath l r) (peerPaths peer) then peer
      else Peer_addPath \<lparr>localAddr = l, remoteAddr = r, pathLastSend = 0,
                          pathLastReceive = 0, pathActive = False,
                          pathPreferred = False\<rparr> peer)"

text \<open>
  Modelled from the spec: the missing ageing of paths (section 3, "they age out when
  unused"): the paths that are not alive leave the table.
\<close>

definition Peer_clean :: "64 word \<Rightarrow> Peer \<Rightarrow> Peer" where
  "Peer_clean now peer = peer\<lparr>peerPaths := filter (Path_alive now) (peerPaths peer)\<rparr>"

text \<open>
  Modelled from the spec: what the missing peer table reacts to: a packet received at a
  time from a node address on a path, a path hint for a node address, and the ageing of
  the background task at a time.
\<close>

datatype PeerEvent =
    Received "64 word" "64 word" sockaddr_storage sockaddr_storage
  | PushDirectPath "64 word" sockaddr_storage sockaddr_storage
  | AgeOut "64 word"

text \<open>
  Modelled from the spec: the missing peer table (section 3, "A peer is uniquely indexed
  by its 40-bit address"), a list of peers changed at the peer of an address.
\<close>

definition updatePeer :: "64 word \<Rightarrow> (Peer \<Rightarrow> Peer) \<Rightarrow> Peer list \<Rightarrow> Peer list" where
  "updatePeer a f peers = map (\<lambda>p. if identity p = a then f p else p) peers"

text \<open>
  Modelled from the spec: one step of the missing peer table. The first packet of an
  unknown node creates its peer; a hint for an unknown node changes nothing.
\<close>

fun Topology_step :: "PeerEvent \<Rightarrow> Peer list \<Rightarrow> Peer list" where
  "Topology_step (Received now a l r) peers =
     (if list_ex (\<lambda>p. identity p = a) peers
      then updatePeer a (Peer_received now l r) peers
      else peers @ [Peer_received now l r (Peer_new a)])"
| "Topology_step (PushDirectPath a l r) peers = updatePeer a (Peer_pushDirectPath l r) peers"
| "Topology_step (AgeOut now) peers = map (Peer_clean now) peers"

text \<open>
  Modelled from the spec: the peer table the missing engine holds after a sequence of
  events, starting with no peer (section 3, "it does not persist peer tables").
\<close>

definition Topology_run :: "PeerEvent list \<Rightarrow> Peer list" where
  "Topology_run evs = foldl (\<lambda>peers e. Topology_step e peers) [] evs"

text \<open>
  Modelled from the spec: an unused entry of the array \<open>paths\<close> of a \<open>ZT_Peer\<close>, all
  zero.
\<close>

definition nullPath :: ZT_PeerPhysicalPath where
  "nullPath = \<lparr>ZT_PeerPhysicalPath.address = [], lastSend = 0, lastReceive = 0,
               active = 0, preferred = 0\<rparr>"

text \<open>
  Modelled from the spec: the missing copy of a path into the header's
  \<open>ZT_PeerPhysicalPath\<close>, field by field.
\<close>

definition Path_external :: "Path \<Rightarrow> ZT_PeerPhysicalPath" where
  "Path_external p =
     \<lparr>ZT_PeerPhysicalPath.address = remoteAddr p, lastSend = pathLastSend p,
      lastReceive = pathLastReceive p,
      active = (if pathActive p then 1 else 0),
      preferred = (if pathPreferred p then 1 else 0)\<rparr>"

text \<open>
  Modelled from the spec: the missing copy of a peer into the header's \<open>ZT_Peer\<close>.
  \<open>pathCount\<close> is the number of paths of the peer, as the header documents the field
  ("Number of paths (size of paths[])"), converted to \<^verbatim>\<open>unsigned int\<close>; the paths
  fill the array from its start and the entries left are zero. Nothing is cut to the
  capacity here: that the paths fit is the invariant of the peer table. The frame times
  and the remote version are not modelled (0 and -1, "or -1 if not known").
\<close>

definition Peer_external :: "Peer \<Rightarrow> ZT_Peer" where
  "Peer_external peer =
     \<lparr>ZT_Peer.address = identity peer, lastUnicastFrame = 0, lastMulticastFrame = 0,
      versionMajor = -1, versionMinor = -1, versionRev = -1,
      latency = latencyEWMA peer, role = peerRole peer,
      pathCount = of_nat (length (peerPaths peer)),
      paths = map Path_external (peerPaths peer)
              @ replicate (ZT_MAX_PEER_NETWORK_PATHS - length (peerPaths peer)) nullPath\<rparr>"

text \<open>
  Modelled from the spec: the body of the entry point \<^verbatim>\<open>ZT_Node_peers\<close> ("Get a list
  of known peer nodes"), declared in the header and defined in the missing engine: one
  \<open>ZT_Peer\<close> for each peer of the table.
\<close>

definition ZT_Node_peers :: "Peer list \<Rightarrow> ZT_Peer list" where
  "ZT_Node_peers peers = map Peer_external peers"

text \<open>
  Modelled from the spec: the invariant of section 8, "For all peers P,
  \<open>|P.paths| \<le> 4\<close> at all times".
\<close>

definition Peer_bounded :: "Peer \<Rightarrow> bool" where
  "Peer_bounded peer = (length (peerPaths peer) \<le> ZT_MAX_PEER_NETWORK_PATHS)"

text \<open>
  A peer seen on five paths in turn, at the times 10 to 50: one more path than the table
  holds.
\<close>

definition fiveSightings :: "PeerEvent list" where
  "fiveSightings = [Received 10 1 [] [1], Received 20 1 [] [2], Received 30 1 [] [3],
                    Received 40 1 [] [4], Received 50 1 [] [5]]"

subsection \<open>Joined networks and multicast subscriptions\<close>

text \<open>
  Modelled from the spec: the engine's \<open>Network\<close> record (section 3, "Network (VL2).
  \<open>{nwid, mac, config?, status, multicastSubs: set<(MAC,ADI)>, lastConfigRequest,
  portError}\<close>"), whose code is missing. The set of subscriptions is a list without
  duplicates, in the order of subscription.
\<close>

record Network =
  nwid :: "64 word"
  status :: ZT_VirtualNetworkStatus
  multicastSubs :: "ZT_MulticastGroup list"
  portError :: int

text \<open>
  Modelled from the spec: the verbs of the missing packet protocol, of which joining
  sends one (section 4.5, "emit NETWORK_CONFIG_REQUEST to the controller").
\<close>

datatype Verb = VERB_NETWORK_CONFIG_REQUEST

text \<open>
  Modelled from the spec: what the missing engine hands to the host during a call
  (section 2, "emits outputs through four host-supplied sinks"): a call of the port
  configuration callback with the network, the operation and the status it reports, or
  a wire packet with its destination address, its verb and the network it is about.
\<close>

datatype Output =
    PortConfig "64 word" ZT_VirtualNetworkConfigOperation ZT_VirtualNetworkStatus
  | WirePacket "64 word" Verb "64 word"

text \<open>
  Modelled from the spec: the part of the missing node's state behind the network entry
  points: the joined networks by network ID (section 3, "A network entry exists only
  while joined") and the outputs emitted so far.
\<close>

record Node =
  networks :: "64 word \<rightharpoonup> Network"
  outputs :: "Output list"

text \<open>
  Modelled from the spec: the state of a node the missing \<^verbatim>\<open>ZT_Node_new\<close> returns,
  as far as networks go (section 8, scenario 1: "single node, no network").
\<close>

definition Node_new :: Node where
  "Node_new = \<lparr>networks = Map.empty, outputs = []\<rparr>"

text \<open>
  The header's \<^verbatim>\<open>ZT_VirtualNetworkConfigFunction\<close>, the host's port configuration
  callback: it is given the network ID and the operation (the node, the user pointer
  and the configuration are left out) and "must return 0 on success".
\<close>

type_synonym ZT_VirtualNetworkConfigFunction =
  "64 word \<Rightarrow> ZT_VirtualNetworkConfigOperation \<Rightarrow> int"

text \<open>
  Modelled from the spec: the missing address of a network's controller (section 3,
  "\<open>nwid\<close>'s top 40 bits identify the controller node").
\<close>

definition controllerOf :: "64 word \<Rightarrow> 64 word" where
  "controllerOf n = drop_bit 24 n"

text \<open>
  Modelled from the spec: the body of the entry point \<^verbatim>\<open>ZT_Node_join\<close>, declared in
  the header and defined in the missing engine. Header: "If we are already a member of
  the network, nothing is done and OK is returned." Section 4.5: "insert a Network with
  \<open>status = REQUESTING\<close>; fire port-config callback with \<open>UP\<close>; emit
  NETWORK_CONFIG_REQUEST to the controller". Section 6: a nonzero result of the callback
  "puts network in \<open>PORT_ERROR\<close> with the returned code".
\<close>

definition ZT_Node_join ::
    "ZT_VirtualNetworkConfigFunction \<Rightarrow> 64 word \<Rightarrow> Node \<Rightarrow> ZT_ResultCode \<times> Node" where
  "ZT_Node_join host n node =
     (case networks node n of
        Some nw \<Rightarrow> (ZT_RESULT_OK, node)
      | None \<Rightarrow>
          (let rc = host n ZT_VIRTUAL_NETWORK_CONFIG_OPERATION_UP;
               nw = \<lparr>nwid = n,
                     status = (if rc = 0 then ZT_NETWORK_STATUS_REQUESTING_CONFIGURATION
                               else ZT_NETWORK_STATUS_PORT_ERROR),
                     multicastSubs = [],
                     portError = rc\<rparr>
           in (ZT_RESULT_OK,
               node\<lparr>networks := (networks node)(n \<mapsto> nw),
                    outputs := outputs node @
                      [PortConfig n ZT_VIRTUAL_NETWORK_CONFIG_OPERATION_UP
                         ZT_NETWORK_STATUS_REQUESTING_CONFIGURATION,
                       WirePacket (controllerOf n) VERB_NETWORK_CONFIG_REQUEST n]\<rparr>)))"







section \<open>Result codes: what the header decides\<close>

lemma ZT_ResultCode_value_range:
  "0 \<le> ZT_ResultCode_value c \<and> ZT_ResultCode_value c \<le> 1002"
  by (cases c) simp_all

text \<open>
  Claim C1, as the specification states it: a result code is fatal if and only if its
  number is below 1000. The successful code refutes it: \<open>ZT_RESULT_OK\<close> is 0, which is
  below 1000, and the macro does not call it fatal, since it also asks for a number
  above 0.
\<close>

theorem ZT_ResultCode_fatal_below_1000_counterexample:
  "\<not> (ZT_ResultCode_isFatal (ZT_ResultCode_value ZT_RESULT_OK)
        = (ZT_ResultCode_value ZT_RESULT_OK < 1000))"
  by (simp add: ZT_ResultCode_isFatal_def)

text \<open>
  Claim C1, amended: for every result code other than \<open>ZT_RESULT_OK\<close>, the code is fatal
  (by the macro \<open>ZT_ResultCode_isFatal\<close>) if and only if its number is below 1000, and it
  is a non-fatal error if and only if its number is at least 1000.
\<close>

theorem ZT_ResultCode_error_fatal_iff_below_1000:
  assumes "c \<noteq> ZT_RESULT_OK"
  shows "(ZT_ResultCode_isFatal (ZT_ResultCode_value c) = (ZT_ResultCode_value c < 1000))
       \<and> ((\<not> ZT_ResultCode_isFatal (ZT_ResultCode_value c)) = (1000 \<le> ZT_ResultCode_value c))"
  using assms by (cases c) (simp_all add: ZT_ResultCode_isFatal_def)

theorem ZT_ResultCode_error_fatal_iff_below_1000_witness:
  "ZT_RESULT_ERROR_NETWORK_NOT_FOUND \<noteq> ZT_RESULT_OK
   \<and> (ZT_ResultCode_isFatal (ZT_ResultCode_value ZT_RESULT_ERROR_NETWORK_NOT_FOUND)
        = (ZT_ResultCode_value ZT_RESULT_ERROR_NETWORK_NOT_FOUND < 1000))
   \<and> ((\<not> ZT_ResultCode_isFatal (ZT_ResultCode_value ZT_RESULT_ERROR_NETWORK_NOT_FOUND))
        = (1000 \<le> ZT_ResultCode_value ZT_RESULT_ERROR_NETWORK_NOT_FOUND))"
proof -
  have ne: "ZT_RESULT_ERROR_NETWORK_NOT_FOUND \<noteq> ZT_RESULT_OK" by simp
  show ?thesis
    using ne ZT_ResultCode_error_fatal_iff_below_1000 [OF ne] by blast
qed

text \<open>
  Claim C2: the result codes have the numbers the specification lists (OK is 0; the
  fatal codes are 1, 2 and 3; the non-fatal codes are 1000, 1001 and 1002), and the
  macro \<open>ZT_ResultCode_isFatal\<close> holds of a defined code exactly when its number is 1, 2
  or 3.
\<close>

theorem ZT_ResultCode_values:
  "ZT_ResultCode_value ZT_RESULT_OK = 0
   \<and> ZT_ResultCode_value ZT_RESULT_FATAL_ERROR_OUT_OF_MEMORY = 1
   \<and> ZT_ResultCode_value ZT_RESULT_FATAL_ERROR_DATA_STORE_FAILED = 2
   \<and> ZT_ResultCode_value ZT_RESULT_FATAL_ERROR_INTERNAL = 3
   \<and> ZT_ResultCode_value ZT_RESULT_ERROR_NETWORK_NOT_FOUND = 1000
   \<and> ZT_ResultCode_value ZT_RESULT_ERROR_UNSUPPORTED_OPERATION = 1001
   \<and> ZT_ResultCode_value ZT_RESULT_ERROR_BAD_PARAMETER = 1002
   \<and> (\<forall>c. ZT_ResultCode_isFatal (ZT_ResultCode_value c)
            = (ZT_ResultCode_value c \<in> {1, 2, 3}))"
proof -
  have "ZT_ResultCode_isFatal (ZT_ResultCode_value c)
          = (ZT_ResultCode_value c \<in> {1, 2, 3})" for c
    by (cases c) (simp_all add: ZT_ResultCode_isFatal_def)
  then show ?thesis by simp
qed

text \<open>
  Claim C9: the successful result code is never classified as fatal. The macro asks for
  a number strictly above 0, and \<open>ZT_RESULT_OK\<close> is 0.
\<close>

theorem ZT_ResultCode_OK_not_fatal:
  "\<not> ZT_ResultCode_isFatal (ZT_ResultCode_value ZT_RESULT_OK)"
  by (simp add: ZT_ResultCode_isFatal_def)

text \<open>
  Further properties of the header. The numbers of the event codes and of the port
  configuration operations are those the specification lists for the callbacks
  (section 6).
\<close>

lemma ZT_Event_values:
  "ZT_Event_value ZT_EVENT_UP = 0
   \<and> ZT_Event_value ZT_EVENT_OFFLINE = 1
   \<and> ZT_Event_value ZT_EVENT_ONLINE = 2
   \<and> ZT_Event_value ZT_EVENT_DOWN = 3
   \<and> ZT_Event_value ZT_EVENT_FATAL_ERROR_IDENTITY_COLLISION = 4
   \<and> ZT_Event_value ZT_EVENT_TRACE = 5"
  by simp

lemma ZT_VirtualNetworkConfigOperation_values:
  "ZT_VirtualNetworkConfigOperation_value ZT_VIRTUAL_NETWORK_CONFIG_OPERATION_UP = 1
   \<and> ZT_VirtualNetworkConfigOperation_value ZT_VIRTUAL_NETWORK_CONFIG_OPERATION_CONFIG_UPDATE = 2
   \<and> ZT_VirtualNetworkConfigOperation_value ZT_VIRTUAL_NETWORK_CONFIG_OPERATION_DOWN = 3
   \<and> ZT_VirtualNetworkConfigOperation_value ZT_VIRTUAL_NETWORK_CONFIG_OPERATION_DESTROY = 4"
  by simp

text \<open>No two result codes share a number: the host can tell them apart by value.\<close>

lemma ZT_ResultCode_value_inj:
  "(ZT_ResultCode_value a = ZT_ResultCode_value b) = (a = b)"
  by (cases a; cases b) simp_all

section \<open>Core constants: what the header decides\<close>

text \<open>
  The macro \<open>ZT_CLUSTER_MAX_MESSAGE_LENGTH\<close> evaluates to 1452. The comment of
  \<^verbatim>\<open>ZT_Node_clusterInit\<close> quotes the same macro with the number 65535, which it is not.
\<close>

lemma ZT_CLUSTER_MAX_MESSAGE_LENGTH_value:
  "ZT_CLUSTER_MAX_MESSAGE_LENGTH = 1452 \<and> ZT_CLUSTER_MAX_MESSAGE_LENGTH \<noteq> 65535"
  by (simp add: ZT_CLUSTER_MAX_MESSAGE_LENGTH_def)

lemma ZT_DEFAULT_PORT_ZT_MAX_MTU_values:
  "ZT_DEFAULT_PORT = 9993 \<and> ZT_MAX_MTU = 2800"
  by (simp add: ZT_DEFAULT_PORT_def ZT_MAX_MTU_def)

text \<open>
  The bounds of a circuit test, and the number of addresses the array of hops of a
  \<^verbatim>\<open>ZT_CircuitTest\<close> has room for.
\<close>

lemma ZT_CIRCUIT_TEST_values:
  "ZT_CIRCUIT_TEST_MAX_HOPS = 512 \<and> ZT_CIRCUIT_TEST_MAX_HOP_BREADTH = 256
   \<and> ZT_CIRCUIT_TEST_MAX_HOPS * ZT_CIRCUIT_TEST_MAX_HOP_BREADTH = 131072"
  by (simp add: ZT_CIRCUIT_TEST_MAX_HOPS_def ZT_CIRCUIT_TEST_MAX_HOP_BREADTH_def)

lemma ZT_MAX_NETWORK_MULTICAST_SUBSCRIPTIONS_value:
  "ZT_MAX_NETWORK_MULTICAST_SUBSCRIPTIONS = 4096"
  by (simp add: ZT_MAX_NETWORK_MULTICAST_SUBSCRIPTIONS_def)

section \<open>The path table of a peer\<close>

lemma evictLeastRecentlyReceived_length:
  "ps \<noteq> [] \<Longrightarrow> length (evictLeastRecentlyReceived ps) = length ps - 1"
  by (simp add: evictLeastRecentlyReceived_def length_remove1 arg_min_list_in)

lemma Peer_new_bounded: "Peer_bounded (Peer_new a)"
  by (simp add: Peer_bounded_def Peer_new_def)

text \<open>A full table evicts one path before it takes the new one, so it stays full.\<close>

lemma Peer_addPath_bounded: "Peer_bounded peer \<Longrightarrow> Peer_bounded (Peer_addPath p peer)"
  by (cases "peerPaths peer = []")
     (auto simp: Peer_bounded_def Peer_addPath_def evictLeastRecentlyReceived_length
                 ZT_MAX_PEER_NETWORK_PATHS_def)

lemma Peer_received_bounded:
  "Peer_bounded peer \<Longrightarrow> Peer_bounded (Peer_received now l r peer)"
  by (auto simp: Peer_received_def Peer_addPath_bounded) (simp add: Peer_bounded_def)

lemma Peer_pushDirectPath_bounded:
  "Peer_bounded peer \<Longrightarrow> Peer_bounded (Peer_pushDirectPath l r peer)"
  by (simp add: Peer_pushDirectPath_def Peer_addPath_bounded)

lemma Peer_clean_bounded:
  assumes "Peer_bounded peer"
  shows "Peer_bounded (Peer_clean now peer)"
proof -
  have "length (filter (Path_alive now) (peerPaths peer)) \<le> length (peerPaths peer)"
    by (rule length_filter_le)
  also have "\<dots> \<le> ZT_MAX_PEER_NETWORK_PATHS"
    using assms by (simp add: Peer_bounded_def)
  finally show ?thesis
    by (simp add: Peer_bounded_def Peer_clean_def)
qed

lemma updatePeer_bounded:
  assumes "list_all Peer_bounded peers"
    and "\<And>p. Peer_bounded p \<Longrightarrow> Peer_bounded (f p)"
  shows "list_all Peer_bounded (updatePeer a f peers)"
  using assms by (induction peers) (auto simp: updatePeer_def)

lemma Topology_step_bounded:
  assumes "list_all Peer_bounded peers"
  shows "list_all Peer_bounded (Topology_step e peers)"
proof (cases e)
  case (Received now a l r)
  then show ?thesis
    using assms by (simp add: updatePeer_bounded Peer_received_bounded Peer_new_bounded)
next
  case (PushDirectPath a l r)
  then show ?thesis
    using assms by (simp add: updatePeer_bounded Peer_pushDirectPath_bounded)
next
  case (AgeOut now)
  have "list_all Peer_bounded (map (Peer_clean now) peers)"
    using assms by (induction peers) (simp_all add: Peer_clean_bounded)
  with AgeOut show ?thesis by simp
qed

text \<open>Whatever the events, no peer of the table holds more paths than the bound.\<close>

lemma Topology_run_bounded: "list_all Peer_bounded (Topology_run evs)"
proof (induction evs rule: rev_induct)
  case Nil
  show ?case by (simp add: Topology_run_def)
next
  case (snoc e evs)
  have "Topology_run (evs @ [e]) = Topology_step e (Topology_run evs)"
    by (simp add: Topology_run_def)
  with snoc show ?case by (simp add: Topology_step_bounded)
qed

text \<open>
  The count of a bounded peer fits the \<^verbatim>\<open>unsigned int\<close> it is stored in, and its
  paths fill the array exactly.
\<close>

lemma Peer_external_bounded:
  assumes "Peer_bounded peer"
  shows "unat (pathCount (Peer_external peer)) = length (peerPaths peer)"
    and "unat (pathCount (Peer_external peer)) \<le> 4"
    and "length (paths (Peer_external peer)) = ZT_MAX_PEER_NETWORK_PATHS"
proof -
  have le: "length (peerPaths peer) \<le> 4"
    using assms by (simp add: Peer_bounded_def ZT_MAX_PEER_NETWORK_PATHS_def)
  then have "length (peerPaths peer) < 2 ^ LENGTH(32)" by simp
  then have u: "unat (of_nat (length (peerPaths peer)) :: 32 word) = length (peerPaths peer)"
    by (rule of_nat_inverse [OF refl])
  show c: "unat (pathCount (Peer_external peer)) = length (peerPaths peer)"
    using u by (simp add: Peer_external_def)
  show "unat (pathCount (Peer_external peer)) \<le> 4"
    using c le by simp
  show "length (paths (Peer_external peer)) = ZT_MAX_PEER_NETWORK_PATHS"
    using le by (simp add: Peer_external_def ZT_MAX_PEER_NETWORK_PATHS_def)
qed

text \<open>
  The fifth path evicts the one received on longest ago, the first, and the four others
  stay.
\<close>

lemma fiveSightings_paths:
  "map (\<lambda>p. map remoteAddr (peerPaths p)) (Topology_run fiveSightings) = [[[2], [3], [4], [5]]]"
  by code_simp

text \<open>
  Claim C3: the number of direct network paths of a peer never exceeds 4.
  \<open>ZT_MAX_PEER_NETWORK_PATHS\<close> is 4, and every \<open>ZT_Peer\<close> record that \<open>ZT_Node_peers\<close>
  reports, after any sequence of events, has \<open>pathCount\<close> at most 4 and its paths in an
  array of capacity \<open>ZT_MAX_PEER_NETWORK_PATHS\<close>.
\<close>

theorem ZT_Node_peers_pathCount_bounded:
  "ZT_MAX_PEER_NETWORK_PATHS = 4
   \<and> (\<forall>r \<in> set (ZT_Node_peers (Topology_run evs)).
         unat (pathCount r) \<le> 4 \<and> length (paths r) = ZT_MAX_PEER_NETWORK_PATHS)"
proof -
  have "unat (pathCount r) \<le> 4 \<and> length (paths r) = ZT_MAX_PEER_NETWORK_PATHS"
    if "r \<in> set (ZT_Node_peers (Topology_run evs))" for r
  proof -
    from that obtain peer
      where p: "peer \<in> set (Topology_run evs)" and r: "r = Peer_external peer"
      by (auto simp: ZT_Node_peers_def)
    have "Peer_bounded peer"
      using p Topology_run_bounded [of evs] by (simp add: list_all_iff)
    then show ?thesis
      using r Peer_external_bounded(2,3) by simp
  qed
  then show ?thesis by (simp add: ZT_MAX_PEER_NETWORK_PATHS_def)
qed

theorem ZT_Node_peers_pathCount_bounded_witness:
  "hd (ZT_Node_peers (Topology_run fiveSightings))
     \<in> set (ZT_Node_peers (Topology_run fiveSightings))
   \<and> unat (pathCount (hd (ZT_Node_peers (Topology_run fiveSightings)))) \<le> 4
   \<and> length (paths (hd (ZT_Node_peers (Topology_run fiveSightings))))
       = ZT_MAX_PEER_NETWORK_PATHS"
proof -
  have "ZT_Node_peers (Topology_run fiveSightings) \<noteq> []"
    by code_simp
  then have m: "hd (ZT_Node_peers (Topology_run fiveSightings))
                  \<in> set (ZT_Node_peers (Topology_run fiveSightings))"
    by (rule hd_in_set)
  show ?thesis
    using m ZT_Node_peers_pathCount_bounded [of fiveSightings] by blast
qed

section \<open>Joining a network\<close>

lemma ZT_Node_join_member:
  "networks node n = Some nw \<Longrightarrow> ZT_Node_join host n node = (ZT_RESULT_OK, node)"
  by (simp add: ZT_Node_join_def)

lemma ZT_Node_join_OK: "fst (ZT_Node_join host n node) = ZT_RESULT_OK"
  by (simp add: ZT_Node_join_def Let_def split: option.split)

lemma ZT_Node_join_joined: "networks (snd (ZT_Node_join host n node)) n \<noteq> None"
  by (simp add: ZT_Node_join_def Let_def split: option.split)

text \<open>
  Scenario 2 of the specification (section 8): joining \<open>0x8056c2e21c000001\<close> on a new
  node returns OK, calls the port configuration callback with UP and the status
  REQUESTING, and sends a configuration request to the address \<open>0x8056c2e21c\<close>.
\<close>

lemma ZT_Node_join_unknown_network:
  "ZT_Node_join (\<lambda>n op. 0) 0x8056c2e21c000001 Node_new =
     (ZT_RESULT_OK,
      \<lparr>networks = [0x8056c2e21c000001 \<mapsto>
          \<lparr>nwid = 0x8056c2e21c000001, status = ZT_NETWORK_STATUS_REQUESTING_CONFIGURATION,
           multicastSubs = [], portError = 0\<rparr>],
       outputs = [PortConfig 0x8056c2e21c000001 ZT_VIRTUAL_NETWORK_CONFIG_OPERATION_UP
                    ZT_NETWORK_STATUS_REQUESTING_CONFIGURATION,
                  WirePacket 0x8056c2e21c VERB_NETWORK_CONFIG_REQUEST 0x8056c2e21c000001]\<rparr>)"
  by (simp add: ZT_Node_join_def Node_new_def controllerOf_def)

text \<open>
  Claim C4: \<open>ZT_Node_join\<close> is idempotent. For every node state and every network ID,
  joining a network the node is already a member of changes no state (no network is
  added and nothing is emitted to the host: the state, outputs included, is the same)
  and returns \<open>ZT_RESULT_OK\<close>; a join returns \<open>ZT_RESULT_OK\<close>, and a second join of the
  same network right after it returns \<open>ZT_RESULT_OK\<close> and leaves the state of the first.
\<close>

theorem ZT_Node_join_idempotent:
  "(networks node n \<noteq> None \<longrightarrow> ZT_Node_join host n node = (ZT_RESULT_OK, node))
   \<and> fst (ZT_Node_join host n node) = ZT_RESULT_OK
   \<and> ZT_Node_join host n (snd (ZT_Node_join host n node))
       = (ZT_RESULT_OK, snd (ZT_Node_join host n node))"
proof -
  obtain nw where "networks (snd (ZT_Node_join host n node)) n = Some nw"
    using ZT_Node_join_joined [of host n node] by blast
  then have "ZT_Node_join host n (snd (ZT_Node_join host n node))
       = (ZT_RESULT_OK, snd (ZT_Node_join host n node))"
    by (rule ZT_Node_join_member)
  then show ?thesis
    by (auto simp: ZT_Node_join_OK ZT_Node_join_member)
qed

theorem ZT_Node_join_idempotent_witness:
  "networks (snd (ZT_Node_join (\<lambda>n op. 0) 0x8056c2e21c000001 Node_new)) 0x8056c2e21c000001
     \<noteq> None
   \<and> ZT_Node_join (\<lambda>n op. 0) 0x8056c2e21c000001
        (snd (ZT_Node_join (\<lambda>n op. 0) 0x8056c2e21c000001 Node_new))
      = (ZT_RESULT_OK, snd (ZT_Node_join (\<lambda>n op. 0) 0x8056c2e21c000001 Node_new))"
proof -
  have m: "networks (snd (ZT_Node_join (\<lambda>n op. 0) 0x8056c2e21c000001 Node_new))
             0x8056c2e21c000001 \<noteq> None"
    by (simp add: ZT_Node_join_def Node_new_def)
  show ?thesis
    using m ZT_Node_join_idempotent
      [of "snd (ZT_Node_join (\<lambda>n op. 0) 0x8056c2e21c000001 Node_new)"
          "0x8056c2e21c000001" "\<lambda>n op. 0"]
    by blast
qed

section \<open>Subscribing to a multicast group\<close>














end
